theory Spec2Isabelle
  imports Main "HOL-Library.AList" "HOL-Library.Word"
begin

section \<open>Catalyst Capture API: the token lifecycle and the submission pipeline\<close>

text \<open>
  A shallow embedding of \<^verbatim>\<open>apps/api/src/index.js\<close>: the module-level registries
  (\<^verbatim>\<open>sites\<close>, \<^verbatim>\<open>submissions\<close>, \<^verbatim>\<open>challengeTokens\<close>, \<^verbatim>\<open>accessTokens\<close>), the
  optional connection pool, the storage helpers, the origin check, the token helpers and
  the handlers of \<^verbatim>\<open>POST /v1/challenge\<close>, \<^verbatim>\<open>/v1/verify\<close>, \<^verbatim>\<open>/v1/submit\<close> and
  \<^verbatim>\<open>/v1/admin/sites\<close>.

  A handler is a function from the platform's answers during the request (\<open>env\<close>), the
  request and the state before to the response and the state after. Requests are handled
  one after the other; the interleaving of two requests at an \<^verbatim>\<open>await\<close> is not modelled.
  Body fields that the handlers treat as strings are \<open>string option\<close> (\<open>None\<close> for an
  absent field); the payload is a value of an arbitrary type \<open>'p\<close>.
\<close>

subsection \<open>JavaScript values\<close>

text \<open>Truthiness of an optional string: \<^verbatim>\<open>undefined\<close> and \<^verbatim>\<open>""\<close> are falsy.\<close>

fun truthy :: "string option \<Rightarrow> bool" where
  "truthy None = False"
| "truthy (Some s) = (s \<noteq> [])"

text \<open>\<^verbatim>\<open>s.endsWith(t)\<close>.\<close>

definition endsWith :: "string \<Rightarrow> string \<Rightarrow> bool" where
  "endsWith s t = (length t \<le> length s \<and> drop (length s - length t) s = t)"

text \<open>A number inside a template literal: the decimal digits of an integer.\<close>

definition digit_char :: "nat \<Rightarrow> char" where
  "digit_char n = ''0123456789'' ! n"

fun digits10 :: "nat \<Rightarrow> string" where
  "digits10 n =
     (if n < 10 then [digit_char n] else digits10 (n div 10) @ [digit_char (n mod 10)])"

declare digits10.simps [simp del]

definition decimal :: "int \<Rightarrow> string" where
  "decimal i = (if i < 0 then CHR ''-'' # digits10 (nat (- i)) else digits10 (nat i))"

text \<open>\<^verbatim>\<open>buffer.toString("hex")\<close>: two lower-case hexadecimal digits for each byte.\<close>

definition hex_char :: "nat \<Rightarrow> char" where
  "hex_char n = ''0123456789abcdef'' ! n"

definition hex_byte :: "8 word \<Rightarrow> string" where
  "hex_byte b = [hex_char (unat b div 16), hex_char (unat b mod 16)]"

definition toHex :: "8 word list \<Rightarrow> string" where
  "toHex bs = concat (map hex_byte bs)"

subsection \<open>Data\<close>

record site =
  site_id :: string
  name :: string
  domains :: "string list"
  siteKey :: string
  secretKey :: string

text \<open>The values of \<^verbatim>\<open>challengeTokens\<close> and of \<^verbatim>\<open>accessTokens\<close>.\<close>

record challenge_record =
  c_siteKey :: string
  c_issuedAt :: int
  c_verified :: bool

record access_record =
  a_siteKey :: string
  a_issuedAt :: int

text \<open>The \<^verbatim>\<open>entry\<close> object of the submit handler.\<close>

record 'p entry =
  eventId :: string
  e_siteKey :: string
  payload :: 'p
  fingerprint :: "string option"
  ip :: "string option"
  ua :: "string option"
  origin :: "string option"

text \<open>
  The two tables of \<^verbatim>\<open>initDatabase\<close>. \<^verbatim>\<open>sites.id\<close> and \<^verbatim>\<open>submissions.event_id\<close> are
  primary keys and \<^verbatim>\<open>sites.site_key\<close> is \<^verbatim>\<open>UNIQUE\<close>: an \<^verbatim>\<open>INSERT\<close> that repeats one of
  them is refused.
\<close>

record 'p db =
  sites_table :: "site list"
  submissions_table :: "'p entry list"

text \<open>
  The process state. \<open>sites\<close> is the JavaScript \<^verbatim>\<open>Map\<close> from id to record, kept in
  insertion order since \<^verbatim>\<open>findSiteBySiteKey\<close> iterates over it; \<open>pool\<close> is \<open>None\<close> when
  the process runs on in-memory storage.
\<close>

record 'p state =
  sites :: "(string \<times> site) list"
  submissions :: "'p entry list"
  challengeTokens :: "string \<rightharpoonup> challenge_record"
  accessTokens :: "string \<rightharpoonup> access_record"
  pool :: "'p db option"

definition init_state :: "'p state" where
  "init_state = \<lparr>sites = [], submissions = [], challengeTokens = Map.empty,
     accessTokens = Map.empty, pool = None\<rparr>"

text \<open>
  \<^verbatim>\<open>tokenTtlMs\<close> and \<^verbatim>\<open>minSubmitDelayMs\<close>, in milliseconds, with their defaults. Clock
  readings and both settings are integers; an environment variable that \<^verbatim>\<open>Number\<close> does
  not read as an integer is outside the model.
\<close>

record config =
  tokenTtlMs :: int
  minSubmitDelayMs :: int

definition default_config :: config where
  "default_config = \<lparr>tokenTtlMs = 5 * 60 * 1000, minSubmitDelayMs = 0\<rparr>"

text \<open>
  What the platform answers while one request is handled, one field for each place of
  the source that asks:
  \<^item> \<open>now_id\<close>: \<^verbatim>\<open>Date.now()\<close> inside the \<^verbatim>\<open>chl_\<close>, \<^verbatim>\<open>evt_\<close> or \<^verbatim>\<open>site_\<close> template;
  \<^item> \<open>now_issued\<close>: \<^verbatim>\<open>Date.now()\<close> stored as \<^verbatim>\<open>issuedAt\<close>;
  \<^item> \<open>now_expiry\<close>: \<^verbatim>\<open>Date.now()\<close> inside \<^verbatim>\<open>isTokenExpired\<close>;
  \<^item> \<open>now_delay\<close>: \<^verbatim>\<open>Date.now()\<close> in the comparison with \<^verbatim>\<open>minSubmitDelayMs\<close>;
  \<^item> \<open>randomBytes n\<close>: the bytes of \<^verbatim>\<open>crypto.randomBytes(n)\<close>;
  \<^item> \<open>random36_a\<close>, \<open>random36_b\<close>: the strings \<^verbatim>\<open>Math.random().toString(36)\<close> of the
    first and of the second call;
  \<^item> \<open>url_hostname s\<close>: \<^verbatim>\<open>new URL(s).hostname\<close>, \<open>None\<close> when the constructor throws;
  \<^item> \<open>lookup_ok\<close>, \<open>insert_ok\<close>: whether the \<^verbatim>\<open>SELECT\<close>, respectively the \<^verbatim>\<open>INSERT\<close>,
    reaches the database and is executed there (key constraints are checked on the
    tables themselves).
\<close>

record env =
  now_id :: int
  now_issued :: int
  now_expiry :: int
  now_delay :: int
  randomBytes :: "nat \<Rightarrow> 8 word list"
  random36_a :: string
  random36_b :: string
  url_hostname :: "string \<Rightarrow> string option"
  lookup_ok :: bool
  insert_ok :: bool

datatype exn = QueryError

datatype error =
    missing_site_key | missing_fields | missing_name | origin_not_allowed
  | invalid_token | token_expired | invalid_access_token | access_token_expired
  | submit_too_fast | honeypot_triggered | storage_failed | verification_failed

text \<open>
  A response: the HTTP status with the \<^verbatim>\<open>error\<close> string, or the fields of the success
  body that vary (\<^verbatim>\<open>challengeId\<close> and \<^verbatim>\<open>token\<close>; \<^verbatim>\<open>accessToken\<close>; \<^verbatim>\<open>eventId\<close>;
  \<^verbatim>\<open>site\<close>).
\<close>

datatype response =
    Error nat error
  | Ok_challenge string string
  | Ok_verify string
  | Ok_submit string
  | Ok_site site

subsection \<open>Storage\<close>

definition storeSite :: "env \<Rightarrow> site \<Rightarrow> 'p state \<Rightarrow> exn + 'p state" where
  "storeSite E r st =
     (case pool st of
        None \<Rightarrow> Inr (st\<lparr>sites := AList.update (site_id r) r (sites st)\<rparr>)
      | Some d \<Rightarrow>
          if insert_ok E
             \<and> site_id r \<notin> set (map site_id (sites_table d))
             \<and> siteKey r \<notin> set (map siteKey (sites_table d))
          then Inr (st\<lparr>pool := Some (d\<lparr>sites_table := sites_table d @ [r]\<rparr>)\<rparr>)
          else Inl QueryError)"

fun findSiteBySiteKey :: "env \<Rightarrow> string option \<Rightarrow> 'p state \<Rightarrow> exn + site option" where
  "findSiteBySiteKey E None st = Inr None"
| "findSiteBySiteKey E (Some k) st =
     (if k = [] then Inr None
      else case pool st of
        None \<Rightarrow> Inr (find (\<lambda>s. siteKey s = k) (map snd (sites st)))
      | Some d \<Rightarrow>
          if lookup_ok E then Inr (find (\<lambda>s. siteKey s = k) (sites_table d))
          else Inl QueryError)"

text \<open>\<^verbatim>\<open>x || null\<close> on an optional string.\<close>

definition or_null :: "string option \<Rightarrow> string option" where
  "or_null x = (if truthy x then x else None)"

definition storeSubmission :: "env \<Rightarrow> 'p entry \<Rightarrow> 'p state \<Rightarrow> exn + 'p state" where
  "storeSubmission E e st =
     (case pool st of
        None \<Rightarrow> Inr (st\<lparr>submissions := submissions st @ [e]\<rparr>)
      | Some d \<Rightarrow>
          if insert_ok E \<and> eventId e \<notin> set (map eventId (submissions_table d))
          then Inr (st\<lparr>pool := Some (d\<lparr>submissions_table := submissions_table d @
                 [e\<lparr>fingerprint := or_null (fingerprint e), ip := or_null (ip e),
                    ua := or_null (ua e), origin := or_null (origin e)\<rparr>]\<rparr>)\<rparr>)
          else Inl QueryError)"

subsection \<open>Origin check and tokens\<close>

fun getOriginHost :: "env \<Rightarrow> string option \<Rightarrow> string option" where
  "getOriginHost E None = None"
| "getOriginHost E (Some s) = (if s = [] then None else url_hostname E s)"

text \<open>
  \<^verbatim>\<open>!site.domains\<close> has no case of its own: a list is never \<^verbatim>\<open>null\<close> or \<^verbatim>\<open>undefined\<close>.
\<close>

definition isOriginAllowed :: "env \<Rightarrow> site option \<Rightarrow> string option \<Rightarrow> bool" where
  "isOriginAllowed E s orig =
     (case s of
        None \<Rightarrow> True
      | Some x \<Rightarrow>
          if domains x = [] then True
          else (case getOriginHost E orig of
                  None \<Rightarrow> True
                | Some host \<Rightarrow>
                    if host = [] then True
                    else list_ex (\<lambda>d. host = d \<or> endsWith host (CHR ''.'' # d)) (domains x)))"

definition generateToken :: "env \<Rightarrow> string \<Rightarrow> string" where
  "generateToken E prefix = prefix @ ''_'' @ toHex (randomBytes E 16)"

definition isTokenExpired :: "config \<Rightarrow> env \<Rightarrow> int \<Rightarrow> bool" where
  "isTokenExpired C E issuedAt = (now_expiry E - issuedAt > tokenTtlMs C)"

subsection \<open>Handlers\<close>

text \<open>\<^verbatim>\<open>POST /v1/challenge\<close>, given \<^verbatim>\<open>req.body.siteKey\<close>.\<close>

definition post_challenge :: "env \<Rightarrow> string option \<Rightarrow> 'p state \<Rightarrow> response \<times> 'p state" where
  "post_challenge E k st =
     (case k of
        None \<Rightarrow> (Error 400 missing_site_key, st)
      | Some sk \<Rightarrow>
          if sk = [] then (Error 400 missing_site_key, st)
          else
            let challengeId = ''chl_'' @ decimal (now_id E);
                token = generateToken E ''tok'';
                r = \<lparr>c_siteKey = sk, c_issuedAt = now_issued E, c_verified = False\<rparr>
            in (Ok_challenge challengeId token,
                st\<lparr>challengeTokens := (challengeTokens st)(token \<mapsto> r)\<rparr>))"

text \<open>
  \<^verbatim>\<open>POST /v1/verify\<close>, given \<^verbatim>\<open>siteKey\<close> and \<^verbatim>\<open>token\<close> of the body and the
  \<^verbatim>\<open>Origin\<close> header.
\<close>

definition post_verify ::
  "config \<Rightarrow> env \<Rightarrow> string option \<Rightarrow> string option \<Rightarrow> string option \<Rightarrow> 'p state
     \<Rightarrow> response \<times> 'p state" where
  "post_verify C E k t orig st =
     (if \<not> truthy k \<or> \<not> truthy t then (Error 400 missing_fields, st)
      else case findSiteBySiteKey E k st of
        Inl _ \<Rightarrow> (Error 500 verification_failed, st)
      | Inr s \<Rightarrow>
          if s \<noteq> None \<and> \<not> isOriginAllowed E s orig then (Error 403 origin_not_allowed, st)
          else
            (case challengeTokens st (the t) of
               None \<Rightarrow> (Error 401 invalid_token, st)
             | Some r \<Rightarrow>
                 if c_siteKey r \<noteq> the k then (Error 401 invalid_token, st)
                 else if isTokenExpired C E (c_issuedAt r) then (Error 401 token_expired, st)
                 else
                   let accessToken = generateToken E ''acc'';
                       ar = \<lparr>a_siteKey = the k, a_issuedAt = now_issued E\<rparr>
                   in (Ok_verify accessToken,
                       st\<lparr>challengeTokens :=
                            (challengeTokens st)(the t \<mapsto> r\<lparr>c_verified := True\<rparr>),
                          accessTokens := (accessTokens st)(accessToken \<mapsto> ar)\<rparr>)))"

text \<open>The body of \<^verbatim>\<open>POST /v1/submit\<close> and what the handler reads from the request.\<close>

record 'p submit_body =
  b_siteKey :: "string option"
  b_token :: "string option"
  b_accessToken :: "string option"
  b_payload :: "'p option"
  b_honeypot :: "string option"
  b_fingerprint :: "string option"

record request_meta =
  h_origin :: "string option"
  h_user_agent :: "string option"
  r_ip :: "string option"

text \<open>
  The part of the submit handler after the token checks: the entry is assembled and
  stored, and a failure of the store is caught.
\<close>

definition submit_store ::
  "env \<Rightarrow> 'p submit_body \<Rightarrow> request_meta \<Rightarrow> 'p state \<Rightarrow> response \<times> 'p state" where
  "submit_store E b m st =
     (let eid = ''evt_'' @ decimal (now_id E);
          e = \<lparr>eventId = eid, e_siteKey = the (b_siteKey b), payload = the (b_payload b),
               fingerprint = b_fingerprint b, ip = r_ip m, ua = h_user_agent m,
               origin = h_origin m\<rparr>
      in case storeSubmission E e st of
           Inr st' \<Rightarrow> (Ok_submit eid, st')
         | Inl _ \<Rightarrow> (Error 500 storage_failed, st))"

definition post_submit ::
  "config \<Rightarrow> env \<Rightarrow> 'p submit_body \<Rightarrow> request_meta \<Rightarrow> 'p state \<Rightarrow> response \<times> 'p state" where
  "post_submit C E b m st =
     (if \<not> truthy (b_siteKey b) \<or> (\<not> truthy (b_token b) \<and> \<not> truthy (b_accessToken b))
         \<or> b_payload b = None
      then (Error 400 missing_fields, st)
      else if truthy (b_honeypot b) then (Error 400 honeypot_triggered, st)
      else case findSiteBySiteKey E (b_siteKey b) st of
        Inl _ \<Rightarrow> (Error 500 storage_failed, st)
      | Inr s \<Rightarrow>
          if s \<noteq> None \<and> \<not> isOriginAllowed E s (h_origin m)
          then (Error 403 origin_not_allowed, st)
          else if truthy (b_accessToken b) then
            (case accessTokens st (the (b_accessToken b)) of
               None \<Rightarrow> (Error 401 invalid_access_token, st)
             | Some ar \<Rightarrow>
                 if a_siteKey ar \<noteq> the (b_siteKey b) then (Error 401 invalid_access_token, st)
                 else if isTokenExpired C E (a_issuedAt ar)
                 then (Error 401 access_token_expired, st)
                 else submit_store E b m st)
          else
            (case challengeTokens st (the (b_token b)) of
               None \<Rightarrow> (Error 401 invalid_token, st)
             | Some r \<Rightarrow>
                 if c_siteKey r \<noteq> the (b_siteKey b) then (Error 401 invalid_token, st)
                 else if isTokenExpired C E (c_issuedAt r) then (Error 401 token_expired, st)
                 else if now_delay E - c_issuedAt r < minSubmitDelayMs C
                 then (Error 429 submit_too_fast, st)
                 else submit_store E b m
                        (st\<lparr>challengeTokens :=
                              (challengeTokens st)(the (b_token b) \<mapsto> r\<lparr>c_verified := True\<rparr>)\<rparr>)))"

text \<open>
  \<^verbatim>\<open>POST /v1/admin/sites\<close> behind \<^verbatim>\<open>requireAdminKey\<close>, given \<^verbatim>\<open>name\<close> and \<^verbatim>\<open>domains\<close>
  of the body (\<^verbatim>\<open>domains\<close> defaults to the empty list).
\<close>

definition post_admin_sites ::
  "env \<Rightarrow> string option \<Rightarrow> string list option \<Rightarrow> 'p state \<Rightarrow> response \<times> 'p state" where
  "post_admin_sites E nm doms st =
     (if \<not> truthy nm then (Error 400 missing_name, st)
      else
        let r = \<lparr>site_id = ''site_'' @ decimal (now_id E), name = the nm,
                 domains = (case doms of None \<Rightarrow> [] | Some ds \<Rightarrow> ds),
                 siteKey = ''pk_'' @ drop 2 (random36_a E),
                 secretKey = ''sk_'' @ drop 2 (random36_b E)\<rparr>
        in case storeSite E r st of
             Inr st' \<Rightarrow> (Ok_site r, st')
           | Inl _ \<Rightarrow> (Error 500 storage_failed, st))"

subsection \<open>Observations and sample inputs\<close>

text \<open>The \<^verbatim>\<open>error\<close> string of a response, if it has one.\<close>

fun error_of :: "response \<Rightarrow> error option" where
  "error_of (Error n e) = Some e"
| "error_of (Ok_challenge c t) = None"
| "error_of (Ok_verify a) = None"
| "error_of (Ok_submit e) = None"
| "error_of (Ok_site s) = None"

text \<open>The submissions held by the backend in use.\<close>

definition stored_entries :: "'p state \<Rightarrow> 'p entry list" where
  "stored_entries st = (case pool st of None \<Rightarrow> submissions st | Some d \<Rightarrow> submissions_table d)"

text \<open>
  A platform for the examples: every clock reading of the request is \<open>t\<close>, the random
  bytes are all the low byte of \<open>t\<close>, \<^verbatim>\<open>Math.random().toString(36)\<close> gives \<^verbatim>\<open>0.abc\<close>
  and then \<^verbatim>\<open>0.xyz\<close>, every query is executed, and the hostname of \<^verbatim>\<open>https://h\<close> is \<open>h\<close>.
\<close>

definition sample_hostname :: "string \<Rightarrow> string option" where
  "sample_hostname s =
     (if take 8 s = ''https://'' \<and> drop 8 s \<noteq> [] then Some (drop 8 s) else None)"

definition env_at :: "int \<Rightarrow> env" where
  "env_at t = \<lparr>now_id = t, now_issued = t, now_expiry = t, now_delay = t,
     randomBytes = (\<lambda>n. replicate n (word_of_int t)), random36_a = ''0.abc'',
     random36_b = ''0.xyz'', url_hostname = sample_hostname, lookup_ok = True,
     insert_ok = True\<rparr>"

definition tok0 :: string where
  "tok0 = ''tok_00000000000000000000000000000000''"

definition tok1 :: string where
  "tok1 = ''tok_01010101010101010101010101010101''"

definition acc1 :: string where
  "acc1 = ''acc_01010101010101010101010101010101''"

definition acc2 :: string where
  "acc2 = ''acc_02020202020202020202020202020202''"

text \<open>
  The in-memory process after a challenge for \<^verbatim>\<open>pk_abc\<close> at time 0, after the
  verification of its token at time 1, and after a second challenge at time 1.
\<close>

definition state_issued :: "string state" where
  "state_issued = snd (post_challenge (env_at 0) (Some ''pk_abc'') init_state)"

definition state_verified :: "string state" where
  "state_verified =
     snd (post_verify default_config (env_at 1) (Some ''pk_abc'') (Some tok0) None state_issued)"

definition state_two_tokens :: "string state" where
  "state_two_tokens = snd (post_challenge (env_at 1) (Some ''pk_abc'') state_issued)"

definition token_body :: "string \<Rightarrow> string option \<Rightarrow> string submit_body" where
  "token_body t hp = \<lparr>b_siteKey = Some ''pk_abc'', b_token = Some t, b_accessToken = None,
     b_payload = Some ''{}'', b_honeypot = hp, b_fingerprint = None\<rparr>"

definition access_body :: "string \<Rightarrow> string submit_body" where
  "access_body a = \<lparr>b_siteKey = Some ''pk_abc'', b_token = None, b_accessToken = Some a,
     b_payload = Some ''{}'', b_honeypot = None, b_fingerprint = None\<rparr>"

definition no_meta :: request_meta where
  "no_meta = \<lparr>h_origin = None, h_user_agent = None, r_ip = None\<rparr>"

text \<open>
  A registered site restricted to \<^verbatim>\<open>domain.com\<close>, the in-memory process that holds it,
  and the record that \<^verbatim>\<open>POST /v1/admin/sites\<close> builds at time 2 on the sample platform.
\<close>

definition site_old :: site where
  "site_old = \<lparr>site_id = ''site_1'', name = ''shop'', domains = [''domain.com''],
     siteKey = ''pk_abc'', secretKey = ''sk_old''\<rparr>"

definition state_one_site :: "string state" where
  "state_one_site = init_state\<lparr>sites := [(''site_1'', site_old)]\<rparr>"

definition site_new :: site where
  "site_new = \<lparr>site_id = ''site_2'', name = ''new'', domains = [],
     siteKey = ''pk_abc'', secretKey = ''sk_xyz''\<rparr>"

text \<open>A process on the durable backend with empty tables, and after a challenge at time 0.\<close>

definition durable_state :: "string state" where
  "durable_state = init_state\<lparr>pool := Some \<lparr>sites_table = [], submissions_table = []\<rparr>\<rparr>"

definition durable_issued :: "string state" where
  "durable_issued = snd (post_challenge (env_at 0) (Some ''pk_abc'') durable_state)"

text \<open>The durable backend holding the site of \<open>state_one_site\<close> in its table.\<close>

definition durable_one_site :: "string state" where
  "durable_one_site =
     init_state\<lparr>pool := Some \<lparr>sites_table = [site_old], submissions_table = []\<rparr>\<rparr>"

text \<open>The default TTL with a minimum submit delay of one second.\<close>

definition delay_config :: config where
  "delay_config = \<lparr>tokenTtlMs = 5 * 60 * 1000, minSubmitDelayMs = 1000\<rparr>"

text \<open>The in-memory process with two tokens after the first of them has been submitted at time 7.\<close>

definition state_first_submitted :: "string state" where
  "state_first_submitted =
     snd (post_submit default_config (env_at 7) (token_body tok0 None) no_meta state_two_tokens)"

section \<open>Evaluation of the sample inputs\<close>

lemma decimal_0: "decimal 0 = ''0''"
  by (simp add: decimal_def digits10.simps digit_char_def)

lemma replicate_16: "replicate 16 x = [x, x, x, x, x, x, x, x, x, x, x, x, x, x, x, x]"
  by (simp add: eval_nat_numeral)

lemma hex_byte_small: "hex_byte 0 = ''00''" "hex_byte 1 = ''01''" "hex_byte 2 = ''02''"
  by (simp_all add: hex_byte_def hex_char_def)

lemma tok0_eq: "generateToken (env_at 0) ''tok'' = tok0"
  by (simp add: generateToken_def env_at_def toHex_def replicate_16 hex_byte_small tok0_def)

lemma tok1_eq: "generateToken (env_at 1) ''tok'' = tok1"
  by (simp add: generateToken_def env_at_def toHex_def replicate_16 hex_byte_small tok1_def)

lemma acc1_eq: "generateToken (env_at 1) ''acc'' = acc1"
  by (simp add: generateToken_def env_at_def toHex_def replicate_16 hex_byte_small acc1_def)

lemma acc2_eq: "generateToken (env_at 2) ''acc'' = acc2"
  by (simp add: generateToken_def env_at_def toHex_def replicate_16 hex_byte_small acc2_def)

lemma state_issued_eq:
  "state_issued = init_state\<lparr>challengeTokens :=
     [tok0 \<mapsto> \<lparr>c_siteKey = ''pk_abc'', c_issuedAt = 0, c_verified = False\<rparr>]\<rparr>"
  by (simp add: state_issued_def post_challenge_def tok0_eq Let_def)
     (simp add: env_at_def init_state_def)

lemma find_state_issued: "findSiteBySiteKey E k state_issued = Inr None"
  by (cases k) (simp_all add: state_issued_eq init_state_def)

lemma verify_first:
  "post_verify default_config (env_at 1) (Some ''pk_abc'') (Some tok0) None state_issued =
     (Ok_verify acc1, state_issued\<lparr>challengeTokens :=
        [tok0 \<mapsto> \<lparr>c_siteKey = ''pk_abc'', c_issuedAt = 0, c_verified = True\<rparr>],
        accessTokens := [acc1 \<mapsto> \<lparr>a_siteKey = ''pk_abc'', a_issuedAt = 1\<rparr>]\<rparr>)"
  unfolding post_verify_def find_state_issued acc1_eq
  by (simp add: state_issued_eq init_state_def isTokenExpired_def default_config_def tok0_def)
     (simp add: env_at_def)

lemma state_verified_eq:
  "state_verified = init_state\<lparr>challengeTokens :=
        [tok0 \<mapsto> \<lparr>c_siteKey = ''pk_abc'', c_issuedAt = 0, c_verified = True\<rparr>],
        accessTokens := [acc1 \<mapsto> \<lparr>a_siteKey = ''pk_abc'', a_issuedAt = 1\<rparr>]\<rparr>"
  by (simp add: state_verified_def verify_first) (simp add: state_issued_eq)

lemma find_state_verified: "findSiteBySiteKey E k state_verified = Inr None"
  by (cases k) (simp_all add: state_verified_eq init_state_def)

lemma state_two_tokens_eq:
  "state_two_tokens = init_state\<lparr>challengeTokens :=
     [tok0 \<mapsto> \<lparr>c_siteKey = ''pk_abc'', c_issuedAt = 0, c_verified = False\<rparr>,
      tok1 \<mapsto> \<lparr>c_siteKey = ''pk_abc'', c_issuedAt = 1, c_verified = False\<rparr>]\<rparr>"
  by (simp add: state_two_tokens_def post_challenge_def tok1_eq Let_def)
     (simp add: env_at_def state_issued_eq)

lemma decimal_small: "decimal 2 = ''2''" "decimal 7 = ''7''" "decimal 1500 = ''1500''"
  by (simp_all add: decimal_def digits10.simps digit_char_def)

lemma isOriginAllowed_None: "isOriginAllowed E None x"
  by (simp add: isOriginAllowed_def)

lemma token_body_fields:
  "b_siteKey (token_body t hp) = Some ''pk_abc''" "b_token (token_body t hp) = Some t"
  "b_accessToken (token_body t hp) = None" "b_payload (token_body t hp) = Some ''{}''"
  "b_honeypot (token_body t hp) = hp" "b_fingerprint (token_body t hp) = None"
  by (simp_all add: token_body_def)

lemma access_body_fields:
  "b_siteKey (access_body a) = Some ''pk_abc''" "b_token (access_body a) = None"
  "b_accessToken (access_body a) = Some a" "b_payload (access_body a) = Some ''{}''"
  "b_honeypot (access_body a) = None" "b_fingerprint (access_body a) = None"
  by (simp_all add: access_body_def)

lemma env_at_clock:
  "now_id (env_at t) = t" "now_issued (env_at t) = t" "now_expiry (env_at t) = t"
  "now_delay (env_at t) = t" "lookup_ok (env_at t)" "insert_ok (env_at t)"
  by (simp_all add: env_at_def)

section \<open>The storage step of the submit handler\<close>

lemma stored_entries_challengeTokens:
  "stored_entries (st\<lparr>challengeTokens := x\<rparr>) = stored_entries st"
  by (simp add: stored_entries_def split: option.split)

lemma storeSubmission_stored:
  "storeSubmission E e st = Inr st' \<Longrightarrow>
     challengeTokens st' = challengeTokens st \<and> accessTokens st' = accessTokens st
     \<and> sites st' = sites st
     \<and> map eventId (stored_entries st') = map eventId (stored_entries st) @ [eventId e]
     \<and> map e_siteKey (stored_entries st') = map e_siteKey (stored_entries st) @ [e_siteKey e]"
  by (auto simp: storeSubmission_def stored_entries_def split: option.splits if_splits)

lemma storeSubmission_accepts:
  "pool st = None \<or> (insert_ok E \<and> eventId e \<notin> set (map eventId (stored_entries st))) \<Longrightarrow>
     \<exists>st'. storeSubmission E e st = Inr st'"
  by (auto simp: storeSubmission_def stored_entries_def split: option.splits)

lemma storeSubmission_refuses:
  "pool st \<noteq> None \<Longrightarrow> \<not> insert_ok E \<or> eventId e \<in> set (map eventId (stored_entries st)) \<Longrightarrow>
     storeSubmission E e st = Inl QueryError"
  by (auto simp: storeSubmission_def stored_entries_def split: option.splits)

lemma submit_store_memory:
  assumes "pool st = None"
  shows "submit_store E b m st =
     (Ok_submit (''evt_'' @ decimal (now_id E)),
      st\<lparr>submissions := submissions st @
        [\<lparr>eventId = ''evt_'' @ decimal (now_id E), e_siteKey = the (b_siteKey b),
          payload = the (b_payload b), fingerprint = b_fingerprint b, ip = r_ip m,
          ua = h_user_agent m, origin = h_origin m\<rparr>]\<rparr>)"
  using assms by (simp add: submit_store_def storeSubmission_def Let_def)

lemma submit_store_cases:
  "(\<exists>st'. submit_store E b m st = (Ok_submit (''evt_'' @ decimal (now_id E)), st')
      \<and> challengeTokens st' = challengeTokens st \<and> accessTokens st' = accessTokens st
      \<and> sites st' = sites st
      \<and> map eventId (stored_entries st') =
          map eventId (stored_entries st) @ [''evt_'' @ decimal (now_id E)]
      \<and> map e_siteKey (stored_entries st') =
          map e_siteKey (stored_entries st) @ [the (b_siteKey b)])
   \<or> submit_store E b m st = (Error 500 storage_failed, st)"
proof (cases "storeSubmission E \<lparr>eventId = ''evt_'' @ decimal (now_id E),
       e_siteKey = the (b_siteKey b), payload = the (b_payload b),
       fingerprint = b_fingerprint b, ip = r_ip m, ua = h_user_agent m,
       origin = h_origin m\<rparr> st")
  case (Inl a)
  then show ?thesis by (simp add: submit_store_def)
next
  case (Inr st')
  from storeSubmission_stored [OF this] Inr show ?thesis
    by (simp add: submit_store_def)
qed

lemma submit_store_ok:
  assumes "pool st = None
     \<or> (insert_ok E \<and> ''evt_'' @ decimal (now_id E) \<notin> set (map eventId (stored_entries st)))"
  shows "\<exists>st'. submit_store E b m st = (Ok_submit (''evt_'' @ decimal (now_id E)), st')
      \<and> challengeTokens st' = challengeTokens st \<and> accessTokens st' = accessTokens st
      \<and> sites st' = sites st
      \<and> map eventId (stored_entries st') =
          map eventId (stored_entries st) @ [''evt_'' @ decimal (now_id E)]
      \<and> map e_siteKey (stored_entries st') =
          map e_siteKey (stored_entries st) @ [the (b_siteKey b)]"
proof -
  define e where "e = \<lparr>eventId = ''evt_'' @ decimal (now_id E),
       e_siteKey = the (b_siteKey b), payload = the (b_payload b),
       fingerprint = b_fingerprint b, ip = r_ip m, ua = h_user_agent m,
       origin = h_origin m\<rparr>"
  obtain st' where s: "storeSubmission E e st = Inr st'"
    using storeSubmission_accepts [of st E e] assms by (auto simp: e_def)
  from storeSubmission_stored [OF s] s show ?thesis
    by (simp add: submit_store_def e_def)
qed

lemma submit_store_fail:
  assumes "pool st \<noteq> None"
    and "\<not> insert_ok E \<or> ''evt_'' @ decimal (now_id E) \<in> set (map eventId (stored_entries st))"
  shows "submit_store E b m st = (Error 500 storage_failed, st)"
proof -
  define e where "e = \<lparr>eventId = ''evt_'' @ decimal (now_id E),
       e_siteKey = the (b_siteKey b), payload = the (b_payload b),
       fingerprint = b_fingerprint b, ip = r_ip m, ua = h_user_agent m,
       origin = h_origin m\<rparr>"
  have "storeSubmission E e st = Inl QueryError"
    using storeSubmission_refuses [OF assms(1), of E e] assms(2) by (simp add: e_def)
  then show ?thesis by (simp add: submit_store_def e_def)
qed

lemma submit_store_error:
  "error_of (fst (submit_store E b m st)) = None
   \<or> error_of (fst (submit_store E b m st)) = Some storage_failed"
  using submit_store_cases [of E b m st] by auto

section \<open>The two token paths of the submit handler\<close>

lemma post_submit_token_path:
  assumes "b_siteKey b = Some sk" and "sk \<noteq> []" and "b_token b = Some tok" and "tok \<noteq> []"
    and "\<not> truthy (b_accessToken b)" and "b_payload b \<noteq> None" and "\<not> truthy (b_honeypot b)"
    and "findSiteBySiteKey E (Some sk) st = Inr s"
    and "isOriginAllowed E s (h_origin m)"
    and "challengeTokens st tok = Some r" and "c_siteKey r = sk"
    and "\<not> isTokenExpired C E (c_issuedAt r)"
  shows "post_submit C E b m st =
     (if now_delay E - c_issuedAt r < minSubmitDelayMs C then (Error 429 submit_too_fast, st)
      else submit_store E b m
             (st\<lparr>challengeTokens := (challengeTokens st)(tok \<mapsto> r\<lparr>c_verified := True\<rparr>)\<rparr>))"
  using assms by (auto simp add: post_submit_def)

lemma post_submit_access_path:
  assumes "b_siteKey b = Some sk" and "sk \<noteq> []" and "b_accessToken b = Some acc" and "acc \<noteq> []"
    and "b_payload b \<noteq> None" and "\<not> truthy (b_honeypot b)"
    and "findSiteBySiteKey E (Some sk) st = Inr s"
    and "isOriginAllowed E s (h_origin m)"
  shows "post_submit C E b m st =
     (case accessTokens st acc of
        None \<Rightarrow> (Error 401 invalid_access_token, st)
      | Some ar \<Rightarrow>
          if a_siteKey ar \<noteq> sk then (Error 401 invalid_access_token, st)
          else if isTokenExpired C E (a_issuedAt ar) then (Error 401 access_token_expired, st)
          else submit_store E b m st)"
  using assms by (auto simp add: post_submit_def split: option.split)

lemma post_submit_token_checks:
  assumes "b_siteKey b = Some sk" and "sk \<noteq> []" and "b_token b = Some tok" and "tok \<noteq> []"
    and "\<not> truthy (b_accessToken b)" and "b_payload b \<noteq> None" and "\<not> truthy (b_honeypot b)"
    and "findSiteBySiteKey E (Some sk) st = Inr s"
    and "isOriginAllowed E s (h_origin m)"
  shows "post_submit C E b m st =
     (case challengeTokens st tok of
        None \<Rightarrow> (Error 401 invalid_token, st)
      | Some r \<Rightarrow>
          if c_siteKey r \<noteq> sk then (Error 401 invalid_token, st)
          else if isTokenExpired C E (c_issuedAt r) then (Error 401 token_expired, st)
          else if now_delay E - c_issuedAt r < minSubmitDelayMs C
          then (Error 429 submit_too_fast, st)
          else submit_store E b m
                 (st\<lparr>challengeTokens := (challengeTokens st)(tok \<mapsto> r\<lparr>c_verified := True\<rparr>)\<rparr>))"
  using assms by (auto simp add: post_submit_def split: option.split)

section \<open>Repeated verification\<close>

text \<open>
  C1. The claim: a challenge token verifies exactly once before it expires. The handler
  sets \<^verbatim>\<open>verified\<close> and never reads it: the token issued at time 0 for \<^verbatim>\<open>pk_abc\<close> is
  verified at time 1, its record is then marked verified, and the same request at time 2
  is answered with a second access token.
\<close>

theorem verify_same_token_twice:
  "fst (post_challenge (env_at 0) (Some ''pk_abc'') (init_state :: string state))
     = Ok_challenge ''chl_0'' tok0
   \<and> fst (post_verify default_config (env_at 1) (Some ''pk_abc'') (Some tok0) None state_issued)
     = Ok_verify acc1
   \<and> challengeTokens state_verified tok0
     = Some \<lparr>c_siteKey = ''pk_abc'', c_issuedAt = 0, c_verified = True\<rparr>
   \<and> fst (post_verify default_config (env_at 2) (Some ''pk_abc'') (Some tok0) None state_verified)
     = Ok_verify acc2"
proof -
  have a: "fst (post_challenge (env_at 0) (Some ''pk_abc'') (init_state :: string state))
     = Ok_challenge ''chl_0'' tok0"
    by (simp add: post_challenge_def tok0_eq Let_def) (simp add: env_at_def decimal_0)
  have d: "fst (post_verify default_config (env_at 2) (Some ''pk_abc'') (Some tok0) None
      state_verified) = Ok_verify acc2"
    unfolding post_verify_def find_state_verified acc2_eq
    by (simp add: state_verified_eq isTokenExpired_def default_config_def tok0_def)
       (simp add: env_at_def)
  show ?thesis using a d by (simp add: verify_first state_verified_eq)
qed

theorem verify_same_token_twice_witness:
  "error_of (fst (post_verify default_config (env_at 2) (Some ''pk_abc'') (Some tok0) None
      state_verified)) = None"
  using verify_same_token_twice by simp

section \<open>Origin check\<close>

lemma endsWith_iff: "endsWith s t \<longleftrightarrow> (\<exists>p. s = p @ t)"
proof
  assume "endsWith s t"
  then have "s = take (length s - length t) s @ t"
    by (metis append_take_drop_id endsWith_def)
  then show "\<exists>p. s = p @ t" ..
next
  assume "\<exists>p. s = p @ t"
  then show "endsWith s t" by (auto simp: endsWith_def)
qed

lemma isOriginAllowed_Some:
  "isOriginAllowed E (Some x) orig \<longleftrightarrow>
      domains x = []
    \<or> getOriginHost E orig = None
    \<or> getOriginHost E orig = Some []
    \<or> (\<exists>host d. getOriginHost E orig = Some host \<and> d \<in> set (domains x)
          \<and> (host = d \<or> (\<exists>p. host = p @ ''.'' @ d)))"
  by (cases "getOriginHost E orig")
     (auto simp add: isOriginAllowed_def list_ex_iff endsWith_iff)

lemma getOriginHost_None:
  "getOriginHost E orig = None \<longleftrightarrow>
     orig = None \<or> orig = Some [] \<or> (\<exists>s. orig = Some s \<and> url_hostname E s = None)"
  by (cases orig) auto

lemma not_endsWith_notdomain: "\<not> endsWith ''notdomain.com'' ''.domain.com''"
  by (simp add: endsWith_def)

text \<open>
  C2. For a site, \<^verbatim>\<open>isOriginAllowed\<close> is true exactly when the site's domain list is
  empty, or no hostname is obtained from the origin (the header is absent or empty, the URL
  constructor throws, or the hostname it gives is empty), or the hostname equals a
  configured domain, or the hostname is some prefix followed by \<^verbatim>\<open>.\<close> and a configured
  domain. The hostname \<^verbatim>\<open>notdomain.com\<close> is not allowed for a site whose only domain is
  \<^verbatim>\<open>domain.com\<close>.
\<close>

theorem isOriginAllowed_iff:
  "(isOriginAllowed E (Some x) orig \<longleftrightarrow>
      domains x = []
    \<or> getOriginHost E orig = None
    \<or> getOriginHost E orig = Some []
    \<or> (\<exists>host d. getOriginHost E orig = Some host \<and> d \<in> set (domains x)
          \<and> (host = d \<or> (\<exists>p. host = p @ ''.'' @ d))))
   \<and> (getOriginHost E orig = None \<longleftrightarrow>
        orig = None \<or> orig = Some [] \<or> (\<exists>s. orig = Some s \<and> url_hostname E s = None))
   \<and> (url_hostname E u = Some ''notdomain.com'' \<and> u \<noteq> [] \<and> domains x = [''domain.com'']
        \<longrightarrow> \<not> isOriginAllowed E (Some x) (Some u))"
proof -
  have "\<not> isOriginAllowed E (Some x) (Some u)"
    if "url_hostname E u = Some ''notdomain.com''" "u \<noteq> []" "domains x = [''domain.com'']"
    using that not_endsWith_notdomain by (simp add: isOriginAllowed_def)
  then show ?thesis
    using isOriginAllowed_Some [of E x orig] getOriginHost_None [of E orig] by blast
qed

theorem isOriginAllowed_iff_witness:
  "url_hostname (env_at 0) ''https://notdomain.com'' = Some ''notdomain.com''
   \<and> domains site_old = [''domain.com'']
   \<and> \<not> isOriginAllowed (env_at 0) (Some site_old) (Some ''https://notdomain.com'')
   \<and> isOriginAllowed (env_at 0) (Some site_old) (Some ''https://app.domain.com'')
   \<and> isOriginAllowed (env_at 0) (Some site_old) (Some ''https://domain.com'')
   \<and> isOriginAllowed (env_at 0) (Some site_old) (Some ''not a url'')
   \<and> isOriginAllowed (env_at 0) (Some site_old) None"
proof -
  have h: "url_hostname (env_at 0) ''https://notdomain.com'' = Some ''notdomain.com''"
    "url_hostname (env_at 0) ''https://app.domain.com'' = Some ''app.domain.com''"
    "url_hostname (env_at 0) ''https://domain.com'' = Some ''domain.com''"
    "url_hostname (env_at 0) ''not a url'' = None"
    by (simp_all add: env_at_def sample_hostname_def)
  have d: "domains site_old = [''domain.com'']"
    by (simp add: site_old_def)
  have g: "getOriginHost (env_at 0) (Some ''https://app.domain.com'') = Some ''app.domain.com''"
    using h by simp
  have p: "\<exists>p. ''app.domain.com'' = p @ ''.'' @ ''domain.com''"
    by (rule exI [of _ "''app''"]) simp
  have e: "\<exists>host d. getOriginHost (env_at 0) (Some ''https://app.domain.com'') = Some host
      \<and> d \<in> set (domains site_old) \<and> (host = d \<or> (\<exists>p. host = p @ ''.'' @ d))"
    using g p d by (metis list.set_intros(1))
  have 1: "\<not> isOriginAllowed (env_at 0) (Some site_old) (Some ''https://notdomain.com'')"
    using isOriginAllowed_iff [of "env_at 0" site_old None "''https://notdomain.com''"] h d
    by simp
  have 2: "isOriginAllowed (env_at 0) (Some site_old) (Some ''https://app.domain.com'')"
    using isOriginAllowed_iff [of "env_at 0" site_old "Some ''https://app.domain.com''" u] e
    by blast
  have 3: "isOriginAllowed (env_at 0) (Some site_old) (Some ''https://domain.com'')"
    using isOriginAllowed_iff [of "env_at 0" site_old "Some ''https://domain.com''" u] h d
    by simp
  have 4: "isOriginAllowed (env_at 0) (Some site_old) (Some ''not a url'')"
    using isOriginAllowed_iff [of "env_at 0" site_old "Some ''not a url''" u] h d
    by simp
  have 5: "isOriginAllowed (env_at 0) (Some site_old) None"
    using isOriginAllowed_iff [of "env_at 0" site_old None u]
    by simp
  from h d 1 2 3 4 5 show ?thesis by simp
qed

section \<open>Expiry\<close>

lemma post_verify_boundary:
  assumes "challengeTokens st tok = Some r" and "now_expiry E - c_issuedAt r = tokenTtlMs C"
  shows "error_of (fst (post_verify C E k (Some tok) orig st)) \<noteq> Some token_expired"
  using assms
  by (simp add: post_verify_def isTokenExpired_def Let_def split: sum.split)

lemma post_submit_token_boundary:
  assumes "\<not> truthy (b_accessToken b)" and "b_token b = Some tok"
    and "challengeTokens st tok = Some r" and "now_expiry E - c_issuedAt r = tokenTtlMs C"
  shows "error_of (fst (post_submit C E b m st)) \<noteq> Some token_expired"
  using assms submit_store_error
    [of E b m "st\<lparr>challengeTokens := (challengeTokens st)(tok \<mapsto> r\<lparr>c_verified := True\<rparr>)\<rparr>"]
  by (auto simp add: post_submit_def isTokenExpired_def split: sum.split)

lemma post_submit_access_boundary:
  assumes "b_accessToken b = Some acc"
    and "accessTokens st acc = Some ar" and "now_expiry E - a_issuedAt ar = tokenTtlMs C"
  shows "error_of (fst (post_submit C E b m st)) \<noteq> Some access_token_expired"
proof (cases "acc = []")
  case False
  with assms submit_store_error [of E b m st] show ?thesis
    by (auto simp add: post_submit_def isTokenExpired_def split: sum.split)
next
  case True
  have "error_of (fst (submit_store E b m s)) \<noteq> Some access_token_expired" for s
    using submit_store_error [of E b m s] by auto
  with True assms show ?thesis
    by (auto simp add: post_submit_def split: sum.split option.split)
qed

text \<open>
  C3. A token counts as expired exactly when the time elapsed since \<^verbatim>\<open>issuedAt\<close> is
  strictly greater than the configured TTL, which is five minutes by default. When the
  elapsed time equals the TTL the token is not expired, and neither the verify handler nor
  the submit handler (with a raw challenge token or with an access token) answers with the
  expiry error of that token.
\<close>

theorem token_expiry_strict:
  "(isTokenExpired C E issuedAt \<longleftrightarrow> tokenTtlMs C < now_expiry E - issuedAt)
   \<and> tokenTtlMs default_config = 5 * 60 * 1000
   \<and> (now_expiry E - issuedAt = tokenTtlMs C \<longrightarrow> \<not> isTokenExpired C E issuedAt)
   \<and> (challengeTokens st tok = Some r \<and> now_expiry E - c_issuedAt r = tokenTtlMs C \<longrightarrow>
        error_of (fst (post_verify C E k (Some tok) orig st)) \<noteq> Some token_expired)
   \<and> (\<not> truthy (b_accessToken b) \<and> b_token b = Some tok \<and> challengeTokens st tok = Some r
        \<and> now_expiry E - c_issuedAt r = tokenTtlMs C \<longrightarrow>
        error_of (fst (post_submit C E b m st)) \<noteq> Some token_expired)
   \<and> (b_accessToken b = Some acc \<and> accessTokens st acc = Some ar
        \<and> now_expiry E - a_issuedAt ar = tokenTtlMs C \<longrightarrow>
        error_of (fst (post_submit C E b m st)) \<noteq> Some access_token_expired)"
  using post_verify_boundary [of st tok r E C k orig]
    post_submit_token_boundary [of b tok st r E C m]
    post_submit_access_boundary [of b acc st ar E C m]
  by (simp add: isTokenExpired_def default_config_def)

theorem token_expiry_strict_witness:
  "challengeTokens state_issued tok0
     = Some \<lparr>c_siteKey = ''pk_abc'', c_issuedAt = 0, c_verified = False\<rparr>
   \<and> now_expiry (env_at 300000) - 0 = tokenTtlMs default_config
   \<and> \<not> isTokenExpired default_config (env_at 300000) 0
   \<and> isTokenExpired default_config (env_at 300001) 0
   \<and> error_of (fst (post_verify default_config (env_at 300000) (Some ''pk_abc'') (Some tok0)
        None state_issued)) \<noteq> Some token_expired
   \<and> error_of (fst (post_submit default_config (env_at 300000) (token_body tok0 None) no_meta
        state_issued)) \<noteq> Some token_expired"
proof -
  have r: "challengeTokens state_issued tok0
     = Some \<lparr>c_siteKey = ''pk_abc'', c_issuedAt = 0, c_verified = False\<rparr>"
    by (simp add: state_issued_eq)
  have t: "now_expiry (env_at 300000) - 0 = tokenTtlMs default_config"
    by (simp add: env_at_def default_config_def)
  have x: "isTokenExpired default_config (env_at 300001) 0"
    by (simp add: isTokenExpired_def env_at_def default_config_def)
  have b: "\<not> truthy (b_accessToken (token_body tok0 None))"
     "b_token (token_body tok0 None) = Some tok0"
    by (simp_all add: token_body_def)
  show ?thesis
    using token_expiry_strict [of default_config "env_at 300000" 0 state_issued tok0
        "\<lparr>c_siteKey = ''pk_abc'', c_issuedAt = 0, c_verified = False\<rparr>" "Some ''pk_abc''" None
        "token_body tok0 None" no_meta] r t x b
    by simp
qed

section \<open>Token redemption at submission\<close>

lemma post_submit_access_no_delay:
  assumes "truthy (b_accessToken b)"
  shows "post_submit (C\<lparr>minSubmitDelayMs := d\<rparr>) (E\<lparr>now_delay := t\<rparr>) b m st
     = post_submit C E b m st"
proof -
  have f: "findSiteBySiteKey (E\<lparr>now_delay := t\<rparr>) k st = findSiteBySiteKey E k st" for k
    by (cases k) (simp_all cong: option.case_cong)
  have g: "getOriginHost (E\<lparr>now_delay := t\<rparr>) x = getOriginHost E x" for x
    by (cases x) simp_all
  have o: "isOriginAllowed (E\<lparr>now_delay := t\<rparr>) s x = isOriginAllowed E s x" for s x
    unfolding isOriginAllowed_def g by (rule refl)
  have ss: "storeSubmission (E\<lparr>now_delay := t\<rparr>) e st = storeSubmission E e st" for e
    by (simp add: storeSubmission_def cong: option.case_cong)
  have s: "submit_store (E\<lparr>now_delay := t\<rparr>) b m st = submit_store E b m st"
    by (simp add: submit_store_def ss)
  show ?thesis
    using assms
    by (auto simp add: post_submit_def f o s isTokenExpired_def split: sum.split option.split)
qed

lemma post_submit_access_not_too_fast:
  assumes "truthy (b_accessToken b)"
  shows "error_of (fst (post_submit C E b m st)) \<noteq> Some submit_too_fast"
proof -
  have "error_of (fst (submit_store E b m st)) \<noteq> Some submit_too_fast"
    using submit_store_error [of E b m st] by auto
  with assms show ?thesis
    by (auto simp add: post_submit_def split: sum.split option.split)
qed

text \<open>
  C4. Let a submit request carry its required fields and an empty honeypot, and let the site
  lookup and the origin check pass. With an access token the handler checks that the token
  is known, that it belongs to the site key and that it has not expired, and nothing else:
  the answer does not depend on \<^verbatim>\<open>minSubmitDelayMs\<close> nor on the clock reading of the delay
  check, it is never \<^verbatim>\<open>submit_too_fast\<close>, and the token maps are left as they were. With a
  raw challenge token the handler makes the same three checks on the challenge record (an
  unknown token or one of another site key is answered with \<^verbatim>\<open>invalid_token\<close>, an expired
  one with \<^verbatim>\<open>token_expired\<close>, state unchanged) and one more: for a token that passes
  them the answer is \<^verbatim>\<open>submit_too_fast\<close> (state unchanged) when less than
  \<^verbatim>\<open>minSubmitDelayMs\<close> has elapsed since \<^verbatim>\<open>issuedAt\<close>; otherwise, when the store accepts
  the entry, the request succeeds and the challenge record is marked verified. The same
  request, rejected as too fast, succeeds when repeated after the delay.
\<close>

theorem submit_token_kinds:
  assumes "b_siteKey b = Some sk" and "sk \<noteq> []" and "b_payload b \<noteq> None"
    and "\<not> truthy (b_honeypot b)"
    and "findSiteBySiteKey E (Some sk) st = Inr s" and "isOriginAllowed E s (h_origin m)"
    and "pool st = None
      \<or> (insert_ok E \<and> ''evt_'' @ decimal (now_id E) \<notin> set (map eventId (stored_entries st)))"
  shows "(b_accessToken b = Some acc \<and> acc \<noteq> [] \<longrightarrow>
            post_submit (C\<lparr>minSubmitDelayMs := d\<rparr>) (E\<lparr>now_delay := t\<rparr>) b m st
              = post_submit C E b m st
          \<and> error_of (fst (post_submit C E b m st)) \<noteq> Some submit_too_fast
          \<and> (accessTokens st acc = None \<longrightarrow>
                post_submit C E b m st = (Error 401 invalid_access_token, st))
          \<and> (accessTokens st acc = Some ar \<and> a_siteKey ar \<noteq> sk \<longrightarrow>
                post_submit C E b m st = (Error 401 invalid_access_token, st))
          \<and> (accessTokens st acc = Some ar \<and> a_siteKey ar = sk
                \<and> isTokenExpired C E (a_issuedAt ar) \<longrightarrow>
                post_submit C E b m st = (Error 401 access_token_expired, st))
          \<and> (accessTokens st acc = Some ar \<and> a_siteKey ar = sk
                \<and> \<not> isTokenExpired C E (a_issuedAt ar) \<longrightarrow>
                fst (post_submit C E b m st) = Ok_submit (''evt_'' @ decimal (now_id E))
                \<and> challengeTokens (snd (post_submit C E b m st)) = challengeTokens st
                \<and> accessTokens (snd (post_submit C E b m st)) = accessTokens st))
       \<and> (\<not> truthy (b_accessToken b) \<and> b_token b = Some tok \<and> tok \<noteq> [] \<longrightarrow>
            (challengeTokens st tok = None \<longrightarrow>
               post_submit C E b m st = (Error 401 invalid_token, st))
          \<and> (challengeTokens st tok = Some r \<and> c_siteKey r \<noteq> sk \<longrightarrow>
               post_submit C E b m st = (Error 401 invalid_token, st))
          \<and> (challengeTokens st tok = Some r \<and> c_siteKey r = sk
               \<and> isTokenExpired C E (c_issuedAt r) \<longrightarrow>
               post_submit C E b m st = (Error 401 token_expired, st)))
       \<and> (\<not> truthy (b_accessToken b) \<and> b_token b = Some tok \<and> tok \<noteq> []
            \<and> challengeTokens st tok = Some r \<and> c_siteKey r = sk
            \<and> \<not> isTokenExpired C E (c_issuedAt r) \<longrightarrow>
            (now_delay E - c_issuedAt r < minSubmitDelayMs C \<longrightarrow>
               post_submit C E b m st = (Error 429 submit_too_fast, st))
          \<and> (minSubmitDelayMs C \<le> now_delay E - c_issuedAt r \<longrightarrow>
               fst (post_submit C E b m st) = Ok_submit (''evt_'' @ decimal (now_id E))
               \<and> challengeTokens (snd (post_submit C E b m st)) tok
                    = Some (r\<lparr>c_verified := True\<rparr>))
          \<and> (minSubmitDelayMs C \<le> now_delay E - c_issuedAt r
               \<and> now_delay E' - c_issuedAt r < minSubmitDelayMs C
               \<and> \<not> isTokenExpired C E' (c_issuedAt r)
               \<and> findSiteBySiteKey E' (Some sk) st = Inr s'
               \<and> isOriginAllowed E' s' (h_origin m) \<longrightarrow>
               fst (post_submit C E' b m st) = Error 429 submit_too_fast
               \<and> fst (post_submit C E b m (snd (post_submit C E' b m st)))
                    = Ok_submit (''evt_'' @ decimal (now_id E))))"
proof -
  note pre = assms(1-6)
  have A: "fst (post_submit C E b m st) = Ok_submit (''evt_'' @ decimal (now_id E))
      \<and> challengeTokens (snd (post_submit C E b m st)) = challengeTokens st
      \<and> accessTokens (snd (post_submit C E b m st)) = accessTokens st"
    if "b_accessToken b = Some acc" "acc \<noteq> []" "accessTokens st acc = Some ar"
      "a_siteKey ar = sk" "\<not> isTokenExpired C E (a_issuedAt ar)"
  proof -
    have "post_submit C E b m st = submit_store E b m st"
      using post_submit_access_path [OF pre(1,2) that(1,2) pre(3-6), of C] that(3-5) by simp
    with submit_store_ok [OF assms(7), of b m] show ?thesis by auto
  qed
  have B: "post_submit C E b m st =
      (case accessTokens st acc of
        None \<Rightarrow> (Error 401 invalid_access_token, st)
      | Some ar \<Rightarrow>
          if a_siteKey ar \<noteq> sk then (Error 401 invalid_access_token, st)
          else if isTokenExpired C E (a_issuedAt ar) then (Error 401 access_token_expired, st)
          else submit_store E b m st)"
    if "b_accessToken b = Some acc" "acc \<noteq> []"
    using post_submit_access_path [OF pre(1,2) that pre(3-6), of C] .
  have T: "post_submit C E b m st =
     (if now_delay E - c_issuedAt r < minSubmitDelayMs C then (Error 429 submit_too_fast, st)
      else submit_store E b m
             (st\<lparr>challengeTokens := (challengeTokens st)(tok \<mapsto> r\<lparr>c_verified := True\<rparr>)\<rparr>))"
    if "\<not> truthy (b_accessToken b)" "b_token b = Some tok" "tok \<noteq> []"
      "challengeTokens st tok = Some r" "c_siteKey r = sk" "\<not> isTokenExpired C E (c_issuedAt r)"
    using post_submit_token_path [OF pre(1,2) that(2,3,1) pre(3-6) that(4-6)] .
  have K: "post_submit C E b m st =
     (case challengeTokens st tok of
        None \<Rightarrow> (Error 401 invalid_token, st)
      | Some r \<Rightarrow>
          if c_siteKey r \<noteq> sk then (Error 401 invalid_token, st)
          else if isTokenExpired C E (c_issuedAt r) then (Error 401 token_expired, st)
          else if now_delay E - c_issuedAt r < minSubmitDelayMs C
          then (Error 429 submit_too_fast, st)
          else submit_store E b m
                 (st\<lparr>challengeTokens := (challengeTokens st)(tok \<mapsto> r\<lparr>c_verified := True\<rparr>)\<rparr>))"
    if "\<not> truthy (b_accessToken b)" "b_token b = Some tok" "tok \<noteq> []"
    using post_submit_token_checks [OF pre(1,2) that(2,3,1) pre(3-6)] .
  have S: "fst (post_submit C E b m st) = Ok_submit (''evt_'' @ decimal (now_id E))
      \<and> challengeTokens (snd (post_submit C E b m st)) tok = Some (r\<lparr>c_verified := True\<rparr>)"
    if "\<not> truthy (b_accessToken b)" "b_token b = Some tok" "tok \<noteq> []"
      "challengeTokens st tok = Some r" "c_siteKey r = sk" "\<not> isTokenExpired C E (c_issuedAt r)"
      "minSubmitDelayMs C \<le> now_delay E - c_issuedAt r"
  proof -
    let ?st = "st\<lparr>challengeTokens := (challengeTokens st)(tok \<mapsto> r\<lparr>c_verified := True\<rparr>)\<rparr>"
    have acc: "pool ?st = None \<or> (insert_ok E
        \<and> ''evt_'' @ decimal (now_id E) \<notin> set (map eventId (stored_entries ?st)))"
      using assms(7) by (simp add: stored_entries_challengeTokens)
    have "post_submit C E b m st = submit_store E b m ?st"
      using T [OF that(1-6)] that(7) by simp
    with submit_store_ok [OF acc, of b m] show ?thesis by auto
  qed
  have R: "fst (post_submit C E' b m st) = Error 429 submit_too_fast
      \<and> snd (post_submit C E' b m st) = st"
    if "\<not> truthy (b_accessToken b)" "b_token b = Some tok" "tok \<noteq> []"
      "challengeTokens st tok = Some r" "c_siteKey r = sk"
      "now_delay E' - c_issuedAt r < minSubmitDelayMs C"
      "\<not> isTokenExpired C E' (c_issuedAt r)"
      "findSiteBySiteKey E' (Some sk) st = Inr s'" "isOriginAllowed E' s' (h_origin m)"
    using post_submit_token_path [OF pre(1,2) that(2,3,1) pre(3,4) that(8,9,4,5,7)] that(6)
    by simp
  show ?thesis
    using post_submit_access_no_delay [where b = b and C = C and d = d and E = E and t = t and m = m
        and st = st]
      post_submit_access_not_too_fast [of b C E m st] A B T S R K
    by (auto split: option.splits)
qed

theorem submit_token_kinds_witness:
  "fst (post_submit delay_config (env_at 500) (token_body tok0 None) no_meta state_issued)
     = Error 429 submit_too_fast
   \<and> fst (post_submit delay_config (env_at 1500) (token_body tok0 None) no_meta
        (snd (post_submit delay_config (env_at 500) (token_body tok0 None) no_meta state_issued)))
     = Ok_submit ''evt_1500''
   \<and> challengeTokens
        (snd (post_submit delay_config (env_at 1500) (token_body tok0 None) no_meta state_issued))
        tok0
     = Some \<lparr>c_siteKey = ''pk_abc'', c_issuedAt = 0, c_verified = True\<rparr>
   \<and> fst (post_submit delay_config (env_at 2) (access_body acc1) no_meta state_verified)
     = Ok_submit ''evt_2''
   \<and> post_submit delay_config (env_at 1500) (token_body tok1 None) no_meta state_issued
     = (Error 401 invalid_token, state_issued)
   \<and> post_submit delay_config (env_at 300001) (token_body tok0 None) no_meta state_issued
     = (Error 401 token_expired, state_issued)"
proof -
  let ?r = "\<lparr>c_siteKey = ''pk_abc'', c_issuedAt = 0, c_verified = False\<rparr>"
  let ?ar = "\<lparr>a_siteKey = ''pk_abc'', a_issuedAt = 1\<rparr>"
  have p: "pool state_issued = None
      \<or> (insert_ok (env_at 1500) \<and> ''evt_'' @ decimal (now_id (env_at 1500))
            \<notin> set (map eventId (stored_entries state_issued)))"
    by (simp add: state_issued_eq init_state_def)
  have q: "pool state_verified = None
      \<or> (insert_ok (env_at 2) \<and> ''evt_'' @ decimal (now_id (env_at 2))
            \<notin> set (map eventId (stored_entries state_verified)))"
    by (simp add: state_verified_eq init_state_def)
  have t: "tok0 \<noteq> []" "acc1 \<noteq> []"
    by (simp_all add: tok0_def acc1_def)
  have c: "challengeTokens state_issued tok0 = Some ?r" "c_siteKey ?r = ''pk_abc''"
    by (simp_all add: state_issued_eq)
  have a: "accessTokens state_verified acc1 = Some ?ar" "a_siteKey ?ar = ''pk_abc''"
    by (simp_all add: state_verified_eq)
  have x: "\<not> isTokenExpired delay_config (env_at 1500) (c_issuedAt ?r)"
    "\<not> isTokenExpired delay_config (env_at 500) (c_issuedAt ?r)"
    "\<not> isTokenExpired delay_config (env_at 2) (a_issuedAt ?ar)"
    by (simp_all add: isTokenExpired_def delay_config_def env_at_def)
  have d: "minSubmitDelayMs delay_config \<le> now_delay (env_at 1500) - c_issuedAt ?r"
    "now_delay (env_at 500) - c_issuedAt ?r < minSubmitDelayMs delay_config"
    by (simp_all add: delay_config_def env_at_def)
  have n: "now_id (env_at 1500) = 1500" "now_id (env_at 2) = 2"
    by (simp_all add: env_at_def)
  have 1: "fst (post_submit delay_config (env_at 500) (token_body tok0 None) no_meta state_issued)
       = Error 429 submit_too_fast
     \<and> fst (post_submit delay_config (env_at 1500) (token_body tok0 None) no_meta
        (snd (post_submit delay_config (env_at 500) (token_body tok0 None) no_meta state_issued)))
       = Ok_submit ''evt_1500''
     \<and> challengeTokens
        (snd (post_submit delay_config (env_at 1500) (token_body tok0 None) no_meta state_issued))
        tok0 = Some (?r\<lparr>c_verified := True\<rparr>)"
    using submit_token_kinds [where b = "token_body tok0 None" and sk = "''pk_abc''"
        and E = "env_at 1500" and st = state_issued and s = None and m = no_meta
        and C = delay_config and tok = tok0 and r = ?r and E' = "env_at 500" and s' = None,
        OF token_body_fields(1) _ _ _ find_state_issued isOriginAllowed_None p]
      t c x d find_state_issued [of "env_at 500" "Some ''pk_abc''"]
    by (simp add: token_body_fields isOriginAllowed_None n decimal_small)
  have 2: "fst (post_submit delay_config (env_at 2) (access_body acc1) no_meta state_verified)
     = Ok_submit ''evt_2''"
    using submit_token_kinds [where b = "access_body acc1" and sk = "''pk_abc''"
        and E = "env_at 2" and st = state_verified and s = None and m = no_meta
        and C = delay_config and acc = acc1 and ar = ?ar,
        OF access_body_fields(1) _ _ _ find_state_verified isOriginAllowed_None q]
      t a x
    by (simp add: access_body_fields n decimal_small)
  have u: "challengeTokens state_issued tok1 = None" "tok1 \<noteq> []"
    by (simp_all add: state_issued_eq init_state_def tok0_def tok1_def)
  have 3: "post_submit delay_config (env_at 1500) (token_body tok1 None) no_meta state_issued
     = (Error 401 invalid_token, state_issued)"
    using submit_token_kinds [where b = "token_body tok1 None" and sk = "''pk_abc''"
        and E = "env_at 1500" and st = state_issued and s = None and m = no_meta
        and C = delay_config and tok = tok1,
        OF token_body_fields(1) _ _ _ find_state_issued isOriginAllowed_None p]
      u
    by (simp add: token_body_fields)
  have p': "pool state_issued = None
      \<or> (insert_ok (env_at 300001) \<and> ''evt_'' @ decimal (now_id (env_at 300001))
            \<notin> set (map eventId (stored_entries state_issued)))"
    by (simp add: state_issued_eq init_state_def)
  have y: "isTokenExpired delay_config (env_at 300001) (c_issuedAt ?r)"
    by (simp add: isTokenExpired_def delay_config_def env_at_def)
  have 4: "post_submit delay_config (env_at 300001) (token_body tok0 None) no_meta state_issued
     = (Error 401 token_expired, state_issued)"
    using submit_token_kinds [where b = "token_body tok0 None" and sk = "''pk_abc''"
        and E = "env_at 300001" and st = state_issued and s = None and m = no_meta
        and C = delay_config and tok = tok0 and r = ?r,
        OF token_body_fields(1) _ _ _ find_state_issued isOriginAllowed_None p']
      t c y
    by (simp add: token_body_fields)
  from 1 2 3 4 show ?thesis by simp
qed

section \<open>Honeypot\<close>

text \<open>
  C5. A submit request that carries its required fields and a non-empty honeypot is
  answered with \<^verbatim>\<open>honeypot_triggered\<close>, whatever the platform, the registry and the token
  maps hold: the answer is given before the site lookup, the origin check and the token
  checks, and the state (token maps and stored submissions included) is returned unchanged.
\<close>

theorem submit_honeypot_rejected:
  assumes "truthy (b_siteKey b)" and "truthy (b_token b) \<or> truthy (b_accessToken b)"
    and "b_payload b \<noteq> None" and "truthy (b_honeypot b)"
  shows "post_submit C E b m st = (Error 400 honeypot_triggered, st)"
  using assms by (simp add: post_submit_def)

theorem submit_honeypot_rejected_witness:
  "truthy (b_siteKey (token_body tok0 (Some ''x'')))
   \<and> truthy (b_token (token_body tok0 (Some ''x'')))
   \<and> b_payload (token_body tok0 (Some ''x'')) \<noteq> None
   \<and> truthy (b_honeypot (token_body tok0 (Some ''x'')))
   \<and> post_submit default_config (env_at 1) (token_body tok0 (Some ''x'')) no_meta state_issued
       = (Error 400 honeypot_triggered, state_issued)"
proof -
  have h: "truthy (b_siteKey (token_body tok0 (Some ''x'')))"
    "truthy (b_token (token_body tok0 (Some ''x'')))"
    "b_payload (token_body tok0 (Some ''x'')) \<noteq> None"
    "truthy (b_honeypot (token_body tok0 (Some ''x'')))"
    by (simp_all add: token_body_def tok0_def)
  from h submit_honeypot_rejected [of "token_body tok0 (Some ''x'')" default_config "env_at 1"
      no_meta state_issued]
  show ?thesis by simp
qed

section \<open>Site creation\<close>

lemma storeSite_randomBytes: "storeSite (E\<lparr>randomBytes := rb\<rparr>) r st = storeSite E r st"
  by (simp add: storeSite_def cong: option.case_cong)

lemma post_admin_sites_created:
  assumes "post_admin_sites E nm doms st = (Ok_site r, st')"
  shows "truthy nm"
    and "r = \<lparr>site_id = ''site_'' @ decimal (now_id E), name = the nm,
             domains = (case doms of None \<Rightarrow> [] | Some ds \<Rightarrow> ds),
             siteKey = ''pk_'' @ drop 2 (random36_a E),
             secretKey = ''sk_'' @ drop 2 (random36_b E)\<rparr>"
    and "storeSite E r st = Inr st'"
  using assms
  by (auto simp add: post_admin_sites_def Let_def split: if_splits sum.splits)

lemma post_admin_sites_one_site:
  "post_admin_sites (env_at 2) (Some ''new'') (Some []) state_one_site =
     (Ok_site site_new, state_one_site\<lparr>sites := [(''site_1'', site_old), (''site_2'', site_new)]\<rparr>)"
  by (simp add: post_admin_sites_def storeSite_def Let_def env_at_clock decimal_small
      state_one_site_def init_state_def site_new_def)
     (simp add: env_at_def)

lemma find_update_fresh:
  assumes "P v" and "\<forall>x \<in> set xs. \<not> P (snd x)"
  shows "find P (map snd (AList.update k v xs)) = Some v"
  using assms by (induction xs) auto

lemma find_append_fresh:
  assumes "P v" and "\<forall>x \<in> set xs. \<not> P x"
  shows "find P (xs @ [v]) = Some v"
  using assms by (induction xs) auto

lemma storeSite_then_find:
  assumes "storeSite E r st = Inr st'" and "siteKey r \<noteq> []"
    and "pool st = None \<longrightarrow> siteKey r \<notin> set (map (\<lambda>x. siteKey (snd x)) (sites st))"
    and "pool st \<noteq> None \<longrightarrow> lookup_ok E'"
  shows "findSiteBySiteKey E' (Some (siteKey r)) st' = Inr (Some r)"
proof (cases "pool st")
  case None
  with assms(1) have s: "st' = st\<lparr>sites := AList.update (site_id r) r (sites st)\<rparr>"
    by (simp add: storeSite_def)
  have "find (\<lambda>s. siteKey s = siteKey r) (map snd (AList.update (site_id r) r (sites st)))
      = Some r"
    using assms(3) None by (intro find_update_fresh) (auto simp add: image_iff)
  with None assms(2) show ?thesis by (simp add: s)
next
  case (Some d)
  with assms(1) have s: "st' = st\<lparr>pool := Some (d\<lparr>sites_table := sites_table d @ [r]\<rparr>)\<rparr>"
    and f: "siteKey r \<notin> set (map siteKey (sites_table d))"
    by (auto simp add: storeSite_def split: if_splits)
  have "find (\<lambda>s. siteKey s = siteKey r) (sites_table d @ [r]) = Some r"
    using f by (intro find_append_fresh) (auto simp add: image_iff)
  with Some assms(2,4) show ?thesis by (simp add: s)
qed

text \<open>
  When the key that \<^verbatim>\<open>Math.random\<close> gives is not the key of a site stored before (and, on
  the durable backend, the lookup query is executed), a lookup of the new site key in the
  state left by the creation returns the created record itself.
\<close>

lemma createSite_fresh_key_roundtrip:
  assumes "post_admin_sites E nm doms st = (Ok_site r, st')"
    and "pool st = None \<longrightarrow> siteKey r \<notin> set (map (\<lambda>x. siteKey (snd x)) (sites st))"
    and "pool st \<noteq> None \<longrightarrow> lookup_ok E'"
  shows "findSiteBySiteKey E' (Some (siteKey r)) st' = Inr (Some r)
    \<and> domains r = (case doms of None \<Rightarrow> [] | Some ds \<Rightarrow> ds)"
proof -
  note c = post_admin_sites_created [OF assms(1)]
  have k: "siteKey r \<noteq> []"
    by (subst c(2)) simp
  have d: "domains r = (case doms of None \<Rightarrow> [] | Some ds \<Rightarrow> ds)"
    by (subst c(2)) simp
  from storeSite_then_find [OF c(3) k assms(2,3)] d show ?thesis by simp
qed

lemma post_admin_sites_durable_one_site:
  "post_admin_sites (env_at 2) (Some ''new'') (Some []) durable_one_site =
     (Error 500 storage_failed, durable_one_site)"
  by (simp add: post_admin_sites_def storeSite_def Let_def durable_one_site_def init_state_def
      site_old_def)
     (simp add: env_at_def)

text \<open>
  C6. The claim: a site that has just been created is found under its site key with the
  domains and the secret key of the creation, on both backends. On in-memory storage
  \<^verbatim>\<open>storeSite\<close> stores the record without looking at the site keys already held, and
  \<^verbatim>\<open>findSiteBySiteKey\<close> returns the first site of the map with the key. Here
  \<^verbatim>\<open>Math.random\<close> gives the key \<^verbatim>\<open>pk_abc\<close>, which the site of \<open>state_one_site\<close> already
  has: the creation is answered with the new site, and the lookup of its key returns the
  older site, with another secret key and other domains. The durable backend, holding the
  same older site, refuses the same request with \<^verbatim>\<open>storage_failed\<close>.
\<close>

theorem createSite_repeated_key:
  "fst (post_admin_sites (env_at 2) (Some ''new'') (Some []) state_one_site) = Ok_site site_new
   \<and> findSiteBySiteKey (env_at 3) (Some (siteKey site_new))
        (snd (post_admin_sites (env_at 2) (Some ''new'') (Some []) state_one_site))
       = Inr (Some site_old)
   \<and> secretKey site_old \<noteq> secretKey site_new
   \<and> domains site_old \<noteq> domains site_new
   \<and> fst (post_admin_sites (env_at 2) (Some ''new'') (Some []) durable_one_site)
       = Error 500 storage_failed"
  by (simp add: post_admin_sites_one_site post_admin_sites_durable_one_site)
     (simp add: site_new_def site_old_def state_one_site_def init_state_def)

theorem createSite_repeated_key_witness:
  "findSiteBySiteKey (env_at 3) (Some ''pk_abc'')
      (snd (post_admin_sites (env_at 2) (Some ''new'') (Some []) state_one_site))
     \<noteq> Inr (Some site_new)"
  using createSite_repeated_key by (simp add: site_new_def site_old_def)

section \<open>Event identifiers\<close>

lemma find_state_two_tokens: "findSiteBySiteKey E k state_two_tokens = Inr None"
  by (cases k) (simp_all add: state_two_tokens_eq init_state_def)

lemma submit_first:
  "post_submit default_config (env_at 7) (token_body tok0 None) no_meta state_two_tokens =
     (Ok_submit ''evt_7'',
      state_two_tokens\<lparr>challengeTokens := (challengeTokens state_two_tokens)(tok0 \<mapsto>
          \<lparr>c_siteKey = ''pk_abc'', c_issuedAt = 0, c_verified = True\<rparr>),
        submissions := [\<lparr>eventId = ''evt_7'', e_siteKey = ''pk_abc'', payload = ''{}'',
          fingerprint = None, ip = None, ua = None, origin = None\<rparr>]\<rparr>)"
proof -
  let ?r = "\<lparr>c_siteKey = ''pk_abc'', c_issuedAt = 0, c_verified = False\<rparr>"
  have c: "challengeTokens state_two_tokens tok0 = Some ?r"
    by (simp add: state_two_tokens_eq tok0_def tok1_def)
  have x: "\<not> isTokenExpired default_config (env_at 7) (c_issuedAt ?r)"
    by (simp add: isTokenExpired_def default_config_def env_at_def)
  have t: "tok0 \<noteq> []" by (simp add: tok0_def)
  have p: "pool (state_two_tokens\<lparr>challengeTokens := y\<rparr>) = None" for y
    by (simp add: state_two_tokens_eq init_state_def)
  have "post_submit default_config (env_at 7) (token_body tok0 None) no_meta state_two_tokens =
      submit_store (env_at 7) (token_body tok0 None) no_meta
        (state_two_tokens\<lparr>challengeTokens :=
           (challengeTokens state_two_tokens)(tok0 \<mapsto> ?r\<lparr>c_verified := True\<rparr>)\<rparr>)"
    using post_submit_token_path [where b = "token_body tok0 None" and sk = "''pk_abc''"
        and tok = tok0 and E = "env_at 7" and st = state_two_tokens and s = None
        and m = no_meta and r = ?r and C = default_config,
        OF token_body_fields(1) _ token_body_fields(2) t _ _ _ find_state_two_tokens
          isOriginAllowed_None c _ x]
    by (simp add: token_body_fields default_config_def env_at_def)
  then show ?thesis
    unfolding submit_store_memory [OF p]
    by (simp add: token_body_fields no_meta_def env_at_clock decimal_small
        state_two_tokens_eq init_state_def)
qed

lemma state_first_submitted_eq:
  "state_first_submitted = init_state\<lparr>challengeTokens :=
     [tok0 \<mapsto> \<lparr>c_siteKey = ''pk_abc'', c_issuedAt = 0, c_verified = True\<rparr>,
      tok1 \<mapsto> \<lparr>c_siteKey = ''pk_abc'', c_issuedAt = 1, c_verified = False\<rparr>],
     submissions := [\<lparr>eventId = ''evt_7'', e_siteKey = ''pk_abc'', payload = ''{}'',
          fingerprint = None, ip = None, ua = None, origin = None\<rparr>]\<rparr>"
  unfolding state_first_submitted_def submit_first
  by (simp add: state_two_tokens_eq init_state_def fun_upd_twist tok0_def tok1_def)

lemma submit_second:
  "post_submit default_config (env_at 7) (token_body tok1 None) no_meta state_first_submitted =
     (Ok_submit ''evt_7'',
      state_first_submitted\<lparr>challengeTokens := (challengeTokens state_first_submitted)(tok1 \<mapsto>
          \<lparr>c_siteKey = ''pk_abc'', c_issuedAt = 1, c_verified = True\<rparr>),
        submissions := [\<lparr>eventId = ''evt_7'', e_siteKey = ''pk_abc'', payload = ''{}'',
          fingerprint = None, ip = None, ua = None, origin = None\<rparr>,
          \<lparr>eventId = ''evt_7'', e_siteKey = ''pk_abc'', payload = ''{}'',
          fingerprint = None, ip = None, ua = None, origin = None\<rparr>]\<rparr>)"
proof -
  let ?r = "\<lparr>c_siteKey = ''pk_abc'', c_issuedAt = 1, c_verified = False\<rparr>"
  have c: "challengeTokens state_first_submitted tok1 = Some ?r"
    by (simp add: state_first_submitted_eq)
  have x: "\<not> isTokenExpired default_config (env_at 7) (c_issuedAt ?r)"
    by (simp add: isTokenExpired_def default_config_def env_at_def)
  have t: "tok1 \<noteq> []" by (simp add: tok1_def)
  have p: "pool (state_first_submitted\<lparr>challengeTokens := y\<rparr>) = None" for y
    by (simp add: state_first_submitted_eq init_state_def)
  have f: "findSiteBySiteKey (env_at 7) (Some ''pk_abc'') state_first_submitted = Inr None"
    by (simp add: state_first_submitted_eq init_state_def)
  have "post_submit default_config (env_at 7) (token_body tok1 None) no_meta
        state_first_submitted =
      submit_store (env_at 7) (token_body tok1 None) no_meta
        (state_first_submitted\<lparr>challengeTokens :=
           (challengeTokens state_first_submitted)(tok1 \<mapsto> ?r\<lparr>c_verified := True\<rparr>)\<rparr>)"
    using post_submit_token_path [where b = "token_body tok1 None" and sk = "''pk_abc''"
        and tok = tok1 and E = "env_at 7" and st = state_first_submitted and s = None
        and m = no_meta and r = ?r and C = default_config,
        OF token_body_fields(1) _ token_body_fields(2) t _ _ _ f isOriginAllowed_None c _ x]
    by (simp add: token_body_fields default_config_def env_at_def)
  then show ?thesis
    unfolding submit_store_memory [OF p]
    by (simp add: token_body_fields no_meta_def env_at_clock decimal_small
        state_first_submitted_eq init_state_def)
qed

text \<open>
  C7. The claim: any two recorded submissions have different event ids. The id is
  \<^verbatim>\<open>evt_\<close> followed by the clock reading in milliseconds: two requests with two different
  tokens, both handled at time 7 on in-memory storage, are both accepted with the id
  \<^verbatim>\<open>evt_7\<close>, and both entries are recorded.
\<close>

theorem eventId_collision:
  "fst (post_submit default_config (env_at 7) (token_body tok0 None) no_meta state_two_tokens)
     = Ok_submit ''evt_7''
   \<and> fst (post_submit default_config (env_at 7) (token_body tok1 None) no_meta
        state_first_submitted)
     = Ok_submit ''evt_7''
   \<and> map eventId (submissions (snd (post_submit default_config (env_at 7)
        (token_body tok1 None) no_meta state_first_submitted)))
     = [''evt_7'', ''evt_7'']"
  by (simp add: submit_first submit_second)

theorem eventId_collision_witness:
  "\<not> distinct (map eventId (submissions (snd (post_submit default_config (env_at 7)
        (token_body tok1 None) no_meta state_first_submitted))))"
  using eventId_collision by simp

section \<open>Key generation\<close>

text \<open>
  C8. The claim: the site key and the secret key come from a cryptographically secure
  random source. The handler builds both from \<^verbatim>\<open>Math.random().toString(36).slice(2)\<close>:
  its answer and the state it leaves do not depend on what \<^verbatim>\<open>crypto.randomBytes\<close> returns,
  and the keys of a created site are \<^verbatim>\<open>pk_\<close> and \<^verbatim>\<open>sk_\<close> followed by the two
  \<^verbatim>\<open>Math.random\<close> strings without their first two characters.
\<close>

theorem admin_keys_from_math_random:
  "post_admin_sites (E\<lparr>randomBytes := rb\<rparr>) nm doms st = post_admin_sites E nm doms st
   \<and> (fst (post_admin_sites E nm doms st) = Ok_site r \<longrightarrow>
        siteKey r = ''pk_'' @ drop 2 (random36_a E)
        \<and> secretKey r = ''sk_'' @ drop 2 (random36_b E))"
proof -
  have "siteKey r = ''pk_'' @ drop 2 (random36_a E)
      \<and> secretKey r = ''sk_'' @ drop 2 (random36_b E)"
    if "fst (post_admin_sites E nm doms st) = Ok_site r"
    using post_admin_sites_created(2) [of E nm doms st r "snd (post_admin_sites E nm doms st)"] that
    by (metis prod.collapse site.select_convs(4,5))
  then show ?thesis
    by (simp add: post_admin_sites_def storeSite_randomBytes)
qed

theorem admin_keys_from_math_random_witness:
  "fst (post_admin_sites ((env_at 2)\<lparr>randomBytes := (\<lambda>n. [])\<rparr>) (Some ''new'') (Some [])
      state_one_site) = Ok_site site_new
   \<and> siteKey site_new = ''pk_abc'' \<and> secretKey site_new = ''sk_xyz''"
  using admin_keys_from_math_random [where E = "env_at 2" and rb = "\<lambda>n. []"
      and nm = "Some ''new''" and doms = "Some []" and st = state_one_site and r = site_new]
  by (simp add: post_admin_sites_one_site site_new_def)

section \<open>Challenges for unregistered site keys\<close>

lemma generateToken_nonempty: "generateToken E p \<noteq> []"
  by (simp add: generateToken_def)

lemma post_challenge_issued:
  assumes "sk \<noteq> []"
  shows "post_challenge E (Some sk) st =
     (Ok_challenge (''chl_'' @ decimal (now_id E)) (generateToken E ''tok''),
      st\<lparr>challengeTokens := (challengeTokens st)(generateToken E ''tok'' \<mapsto>
           \<lparr>c_siteKey = sk, c_issuedAt = now_issued E, c_verified = False\<rparr>)\<rparr>)"
  using assms by (simp add: post_challenge_def Let_def)

lemma findSiteBySiteKey_challengeTokens:
  "findSiteBySiteKey E k (st\<lparr>challengeTokens := x\<rparr>) = findSiteBySiteKey E k st"
  by (cases k) (simp_all cong: option.case_cong)

text \<open>
  C9. The challenge handler never reads the site registry: for every non-empty site key and
  every state (whatever sites it holds), a token is issued and recorded with that site key,
  the clock reading and \<^verbatim>\<open>verified = false\<close>. If the site key belongs to no site (the lookup
  returns nothing), a later submit request with that token and site key, with a payload and
  without honeypot or access token, before the token expires and after the minimum delay, is
  accepted when the store accepts the entry, and a submission with that site key is stored.
\<close>

theorem challenge_without_registry:
  assumes "sk \<noteq> []"
  shows "fst (post_challenge E (Some sk) st)
       = Ok_challenge (''chl_'' @ decimal (now_id E)) (generateToken E ''tok'')
    \<and> challengeTokens (snd (post_challenge E (Some sk) st)) (generateToken E ''tok'')
       = Some \<lparr>c_siteKey = sk, c_issuedAt = now_issued E, c_verified = False\<rparr>
    \<and> (findSiteBySiteKey E' (Some sk) st = Inr None
        \<and> b_siteKey b = Some sk \<and> b_token b = Some (generateToken E ''tok'')
        \<and> \<not> truthy (b_accessToken b) \<and> b_payload b \<noteq> None \<and> \<not> truthy (b_honeypot b)
        \<and> \<not> isTokenExpired C E' (now_issued E)
        \<and> minSubmitDelayMs C \<le> now_delay E' - now_issued E
        \<and> (pool st = None \<or> (insert_ok E'
              \<and> ''evt_'' @ decimal (now_id E') \<notin> set (map eventId (stored_entries st))))
        \<longrightarrow>
          fst (post_submit C E' b m (snd (post_challenge E (Some sk) st)))
            = Ok_submit (''evt_'' @ decimal (now_id E'))
          \<and> map e_siteKey (stored_entries
                (snd (post_submit C E' b m (snd (post_challenge E (Some sk) st)))))
            = map e_siteKey (stored_entries st) @ [sk])"
proof -
  let ?tok = "generateToken E ''tok''"
  let ?r = "\<lparr>c_siteKey = sk, c_issuedAt = now_issued E, c_verified = False\<rparr>"
  let ?st1 = "st\<lparr>challengeTokens := (challengeTokens st)(?tok \<mapsto> ?r)\<rparr>"
  let ?st2 = "?st1\<lparr>challengeTokens := (challengeTokens ?st1)(?tok \<mapsto> ?r\<lparr>c_verified := True\<rparr>)\<rparr>"
  have c: "post_challenge E (Some sk) st
      = (Ok_challenge (''chl_'' @ decimal (now_id E)) ?tok, ?st1)"
    using post_challenge_issued [OF assms] .
  have "fst (post_submit C E' b m ?st1) = Ok_submit (''evt_'' @ decimal (now_id E'))
      \<and> map e_siteKey (stored_entries (snd (post_submit C E' b m ?st1)))
        = map e_siteKey (stored_entries st) @ [sk]"
    if h: "findSiteBySiteKey E' (Some sk) st = Inr None"
      "b_siteKey b = Some sk" "b_token b = Some ?tok"
      "\<not> truthy (b_accessToken b)" "b_payload b \<noteq> None" "\<not> truthy (b_honeypot b)"
      "\<not> isTokenExpired C E' (now_issued E)"
      "minSubmitDelayMs C \<le> now_delay E' - now_issued E"
      "pool st = None \<or> (insert_ok E'
          \<and> ''evt_'' @ decimal (now_id E') \<notin> set (map eventId (stored_entries st)))"
  proof -
    have f: "findSiteBySiteKey E' (Some sk) ?st1 = Inr None"
      using h(1) by (simp only: findSiteBySiteKey_challengeTokens)
    have r: "challengeTokens ?st1 ?tok = Some ?r" "c_siteKey ?r = sk"
      "\<not> isTokenExpired C E' (c_issuedAt ?r)"
      using h(7) by simp_all
    have p: "post_submit C E' b m ?st1 = submit_store E' b m ?st2"
      using post_submit_token_path [OF h(2) assms h(3) generateToken_nonempty h(4,5,6) f
          isOriginAllowed_None r] h(8)
      by simp
    have a: "pool ?st2 = None \<or> (insert_ok E'
          \<and> ''evt_'' @ decimal (now_id E') \<notin> set (map eventId (stored_entries ?st2)))"
      using h(9) by (simp add: stored_entries_challengeTokens)
    from submit_store_ok [OF a, of b m] p h(2) show ?thesis
      by (auto simp add: stored_entries_challengeTokens)
  qed
  then show ?thesis
    by (simp add: c)
qed

theorem challenge_without_registry_witness:
  "findSiteBySiteKey (env_at 7) (Some ''pk_abc'') (init_state :: string state) = Inr None
   \<and> fst (post_challenge (env_at 0) (Some ''pk_abc'') (init_state :: string state))
       = Ok_challenge ''chl_0'' tok0
   \<and> challengeTokens state_issued tok0
       = Some \<lparr>c_siteKey = ''pk_abc'', c_issuedAt = 0, c_verified = False\<rparr>
   \<and> fst (post_submit default_config (env_at 7) (token_body tok0 None) no_meta state_issued)
       = Ok_submit ''evt_7''
   \<and> map e_siteKey (stored_entries
        (snd (post_submit default_config (env_at 7) (token_body tok0 None) no_meta state_issued)))
       = [''pk_abc'']"
proof -
  have n: "''pk_abc'' \<noteq> []" by simp
  have f: "findSiteBySiteKey (env_at 7) (Some ''pk_abc'') (init_state :: string state) = Inr None"
    by (simp add: init_state_def)
  have x: "\<not> isTokenExpired default_config (env_at 7) (now_issued (env_at 0))"
    "minSubmitDelayMs default_config \<le> now_delay (env_at 7) - now_issued (env_at 0)"
    by (simp_all add: isTokenExpired_def default_config_def env_at_clock)
  have p: "pool (init_state :: string state) = None"
    "stored_entries (init_state :: string state) = []"
    by (simp_all add: init_state_def stored_entries_def)
  from challenge_without_registry [OF n, where E = "env_at 0" and st = "init_state :: string state"
      and E' = "env_at 7" and b = "token_body tok0 None" and C = default_config
      and m = no_meta] f x p
  show ?thesis
    by (simp add: tok0_eq token_body_fields state_issued_def env_at_clock decimal_small
        decimal_0)
qed

section \<open>Storage failure after the token checks\<close>

lemma submit_store_unchanged_or_ok:
  "error_of (fst (submit_store E b m st)) = Some e \<Longrightarrow> e = storage_failed"
  using submit_store_error [of E b m st] by auto

lemma post_submit_rejection_keeps_state:
  assumes "error_of (fst (post_submit C E b m st)) = Some e" and "e \<noteq> storage_failed"
  shows "snd (post_submit C E b m st) = st"
proof -
  have "error_of (fst (submit_store E b m s)) \<noteq> Some e" for s
    using submit_store_unchanged_or_ok [of E b m s e] assms(2) by blast
  with assms(1) show ?thesis
    by (auto simp add: post_submit_def split: if_splits sum.splits option.splits)
qed

text \<open>
  C10. Submit with a raw challenge token is not atomic when the store fails: if the request
  passes every check and the insertion then fails (only the durable backend can fail: the
  query is not executed, or the event id is already in the table), the answer is
  \<^verbatim>\<open>storage_failed\<close> with status 500, the stored submissions are as before, and the
  challenge record is left with \<^verbatim>\<open>verified = true\<close>. Every other error answer of the
  handler (missing fields, honeypot, origin, invalid, expired or too-fast token) returns the
  state unchanged.
\<close>

theorem submit_storage_failure_not_atomic:
  "(b_siteKey b = Some sk \<and> sk \<noteq> [] \<and> b_token b = Some tok \<and> tok \<noteq> []
      \<and> \<not> truthy (b_accessToken b) \<and> b_payload b \<noteq> None \<and> \<not> truthy (b_honeypot b)
      \<and> findSiteBySiteKey E (Some sk) st = Inr s \<and> isOriginAllowed E s (h_origin m)
      \<and> challengeTokens st tok = Some r \<and> c_siteKey r = sk
      \<and> \<not> isTokenExpired C E (c_issuedAt r)
      \<and> minSubmitDelayMs C \<le> now_delay E - c_issuedAt r
      \<and> pool st \<noteq> None
      \<and> (\<not> insert_ok E
          \<or> ''evt_'' @ decimal (now_id E) \<in> set (map eventId (stored_entries st)))
      \<longrightarrow>
        post_submit C E b m st =
          (Error 500 storage_failed,
           st\<lparr>challengeTokens := (challengeTokens st)(tok \<mapsto> r\<lparr>c_verified := True\<rparr>)\<rparr>)
        \<and> stored_entries (snd (post_submit C E b m st)) = stored_entries st
        \<and> challengeTokens (snd (post_submit C E b m st)) tok = Some (r\<lparr>c_verified := True\<rparr>))
   \<and> (error_of (fst (post_submit C E b m st)) = Some e \<and> e \<noteq> storage_failed
        \<longrightarrow> snd (post_submit C E b m st) = st)"
proof -
  let ?st = "st\<lparr>challengeTokens := (challengeTokens st)(tok \<mapsto> r\<lparr>c_verified := True\<rparr>)\<rparr>"
  have "post_submit C E b m st = (Error 500 storage_failed, ?st)"
    if h: "b_siteKey b = Some sk" "sk \<noteq> []" "b_token b = Some tok" "tok \<noteq> []"
      "\<not> truthy (b_accessToken b)" "b_payload b \<noteq> None" "\<not> truthy (b_honeypot b)"
      "findSiteBySiteKey E (Some sk) st = Inr s" "isOriginAllowed E s (h_origin m)"
      "challengeTokens st tok = Some r" "c_siteKey r = sk"
      "\<not> isTokenExpired C E (c_issuedAt r)"
      "minSubmitDelayMs C \<le> now_delay E - c_issuedAt r"
      "pool st \<noteq> None"
      "\<not> insert_ok E
          \<or> ''evt_'' @ decimal (now_id E) \<in> set (map eventId (stored_entries st))"
  proof -
    have p: "pool ?st \<noteq> None"
      using h(14) by simp
    have q: "\<not> insert_ok E
          \<or> ''evt_'' @ decimal (now_id E) \<in> set (map eventId (stored_entries ?st))"
      using h(15) by (simp add: stored_entries_challengeTokens)
    show ?thesis
      using post_submit_token_path [OF h(1-12)] h(13) submit_store_fail [OF p q, of b m]
      by simp
  qed
  then show ?thesis
    using post_submit_rejection_keeps_state [of C E b m st e]
    by (simp add: stored_entries_challengeTokens)
qed

theorem submit_storage_failure_not_atomic_witness:
  "pool durable_issued \<noteq> None
   \<and> challengeTokens durable_issued tok0
       = Some \<lparr>c_siteKey = ''pk_abc'', c_issuedAt = 0, c_verified = False\<rparr>
   \<and> fst (post_submit default_config ((env_at 7)\<lparr>insert_ok := False\<rparr>) (token_body tok0 None)
        no_meta durable_issued) = Error 500 storage_failed
   \<and> stored_entries (snd (post_submit default_config ((env_at 7)\<lparr>insert_ok := False\<rparr>)
        (token_body tok0 None) no_meta durable_issued)) = []
   \<and> challengeTokens (snd (post_submit default_config ((env_at 7)\<lparr>insert_ok := False\<rparr>)
        (token_body tok0 None) no_meta durable_issued)) tok0
       = Some \<lparr>c_siteKey = ''pk_abc'', c_issuedAt = 0, c_verified = True\<rparr>
   \<and> snd (post_submit default_config (env_at 7) (token_body tok0 (Some ''x'')) no_meta
        durable_issued) = durable_issued"
proof -
  let ?E = "(env_at 7)\<lparr>insert_ok := False\<rparr>"
  let ?r = "\<lparr>c_siteKey = ''pk_abc'', c_issuedAt = 0, c_verified = False\<rparr>"
  have d: "durable_issued = durable_state\<lparr>challengeTokens := [tok0 \<mapsto> ?r]\<rparr>"
    by (simp add: durable_issued_def post_challenge_def tok0_eq Let_def)
       (simp add: env_at_def durable_state_def init_state_def)
  have s: "pool durable_issued \<noteq> None" "stored_entries durable_issued = []"
    "challengeTokens durable_issued tok0 = Some ?r"
    by (simp_all add: d durable_state_def init_state_def stored_entries_def)
  have f: "findSiteBySiteKey ?E (Some ''pk_abc'') durable_issued = Inr None"
    by (simp add: d durable_state_def init_state_def env_at_def)
  have x: "\<not> isTokenExpired default_config ?E (c_issuedAt ?r)"
    "minSubmitDelayMs default_config \<le> now_delay ?E - c_issuedAt ?r" "\<not> insert_ok ?E"
    by (simp_all add: isTokenExpired_def default_config_def env_at_def)
  have t: "tok0 \<noteq> []" by (simp add: tok0_def)
  have 1: "fst (post_submit default_config ?E (token_body tok0 None) no_meta durable_issued)
          = Error 500 storage_failed
        \<and> stored_entries (snd (post_submit default_config ?E (token_body tok0 None) no_meta
             durable_issued)) = []
        \<and> challengeTokens (snd (post_submit default_config ?E (token_body tok0 None) no_meta
             durable_issued)) tok0
          = Some \<lparr>c_siteKey = ''pk_abc'', c_issuedAt = 0, c_verified = True\<rparr>"
    using submit_storage_failure_not_atomic [where b = "token_body tok0 None"
        and sk = "''pk_abc''" and tok = tok0 and E = ?E and st = durable_issued and s = None
        and m = no_meta and r = ?r and C = default_config, THEN conjunct1]
      s f x t
    by (simp add: token_body_fields isOriginAllowed_None stored_entries_challengeTokens)
  have h: "post_submit default_config (env_at 7) (token_body tok0 (Some ''x'')) no_meta
        durable_issued = (Error 400 honeypot_triggered, durable_issued)"
    by (simp add: post_submit_def token_body_fields tok0_def)
  have 2: "snd (post_submit default_config (env_at 7) (token_body tok0 (Some ''x'')) no_meta
        durable_issued) = durable_issued"
    using submit_storage_failure_not_atomic [where b = "token_body tok0 (Some ''x'')"
        and E = "env_at 7" and st = durable_issued and m = no_meta and C = default_config
        and e = honeypot_triggered, THEN conjunct2]
    by (simp add: h)
  from 1 2 s show ?thesis by simp
qed

end
